theory Spec2Isabelle
  imports Main "HOL-Library.Word"
begin

unbundle bit_operations_syntax

section \<open>The RTMP client of gortmp: chunk framing, reassembly and dispatch\<close>

text \<open>
  A shallow embedding of \<^verbatim>\<open>client.go\<close> (the three loops \<^verbatim>\<open>receiveLoop\<close>,
  \<^verbatim>\<open>dispatchLoop\<close>, \<^verbatim>\<open>sendLoop\<close> and their handlers) and of the constants file.
  Go's \<^verbatim>\<open>uint8\<close> and \<^verbatim>\<open>uint32\<close> are words, so that sums of timestamps and
  differences of lengths wrap as they do in Go. A pointer that may be \<^verbatim>\<open>nil\<close> is an
  \<open>option\<close>, a Go map is a HOL map, a channel is the list of the values queued in it,
  and a \<^verbatim>\<open>bytes.Buffer\<close> is the list of its unread bytes.
\<close>

type_synonym uint8 = "8 word"
type_synonym uint32 = "32 word"

subsection \<open>Constants\<close>

definition TIMESTAMP_EXTENDED :: uint32 where
  "TIMESTAMP_EXTENDED = 0xFFFFFF"

definition CHUNK_STREAM_ID_PROTOCOL :: uint32 where
  "CHUNK_STREAM_ID_PROTOCOL = 2"

definition CHUNK_STREAM_ID_COMMAND :: uint32 where
  "CHUNK_STREAM_ID_COMMAND = 3"

definition CHUNK_STREAM_ID_USER_CONTROL :: uint32 where
  "CHUNK_STREAM_ID_USER_CONTROL = 4"

definition HEADER_FORMAT_FULL :: uint8 where
  "HEADER_FORMAT_FULL = 0x00"

definition HEADER_FORMAT_SAME_STREAM :: uint8 where
  "HEADER_FORMAT_SAME_STREAM = 0x01"

definition HEADER_FORMAT_SAME_LENGTH_AND_STREAM :: uint8 where
  "HEADER_FORMAT_SAME_LENGTH_AND_STREAM = 0x02"

definition HEADER_FORMAT_CONTINUATION :: uint8 where
  "HEADER_FORMAT_CONTINUATION = 0x03"

definition MESSAGE_TYPE_CHUNK_SIZE :: uint8 where
  "MESSAGE_TYPE_CHUNK_SIZE = 0x01"

definition MESSAGE_TYPE_ACK_SIZE :: uint8 where
  "MESSAGE_TYPE_ACK_SIZE = 0x05"

definition MESSAGE_TYPE_BANDWIDTH :: uint8 where
  "MESSAGE_TYPE_BANDWIDTH = 0x06"

definition MESSAGE_TYPE_AMF0 :: uint8 where
  "MESSAGE_TYPE_AMF0 = 0x14"

definition DEFAULT_CHUNK_SIZE :: uint32 where
  "DEFAULT_CHUNK_SIZE = 128"

definition DEFAULT_WINDOW_SIZE :: uint32 where
  "DEFAULT_WINDOW_SIZE = 2500000"

named_theorems rtmp_consts \<open>the values of the protocol constants\<close>

lemmas [rtmp_consts] =
  TIMESTAMP_EXTENDED_def CHUNK_STREAM_ID_PROTOCOL_def CHUNK_STREAM_ID_COMMAND_def CHUNK_STREAM_ID_USER_CONTROL_def
  HEADER_FORMAT_FULL_def HEADER_FORMAT_SAME_STREAM_def
  HEADER_FORMAT_SAME_LENGTH_AND_STREAM_def HEADER_FORMAT_CONTINUATION_def
  MESSAGE_TYPE_CHUNK_SIZE_def MESSAGE_TYPE_ACK_SIZE_def MESSAGE_TYPE_BANDWIDTH_def
  MESSAGE_TYPE_AMF0_def DEFAULT_CHUNK_SIZE_def DEFAULT_WINDOW_SIZE_def

subsection \<open>Headers, messages and chunk-stream state\<close>

text \<open>
  The struct declarations of \<^verbatim>\<open>Header\<close>, \<^verbatim>\<open>Message\<close>, \<^verbatim>\<open>InboundChunkStream\<close>
  and \<^verbatim>\<open>OutboundChunkStream\<close> are not in the two source files; the records hold the
  fields that \<^verbatim>\<open>client.go\<close> reads and writes, with the types its uses give them.
  Two fields of \<^verbatim>\<open>Header\<close> share their names with fields of \<^verbatim>\<open>Message\<close> and carry
  the suffix \<open>_h\<close>; the fields of the outbound chunk stream carry \<open>_out\<close>.
\<close>

record Header =
  Format :: uint8
  ChunkStreamId_h :: uint32
  Timestamp_h :: uint32
  MessageLength :: uint32
  MessageTypeId :: uint8
  MessageStreamId :: uint32

record Message =
  Type :: uint8
  ChunkStreamId :: uint32
  StreamId :: uint32
  Timestamp :: uint32
  AbsoluteTimestamp :: uint32
  Length :: uint32
  Buffer :: "uint8 list"

record InboundChunkStream =
  Id :: uint32
  lastHeader :: "Header option"
  lastInAbsoluteTimestamp :: uint32
  currentMessage :: "Message option"

record OutboundChunkStream =
  Id_out :: uint32
  lastHeader_out :: "Header option"

text \<open>Modelled from the spec: \<^verbatim>\<open>NewInboundChunkStream\<close> is not in the source files. A
  fresh chunk stream has its id, no last header, no message in progress and the zero
  timestamp (section 3, chunk stream state).\<close>

definition NewInboundChunkStream :: "uint32 \<Rightarrow> InboundChunkStream" where
  "NewInboundChunkStream i =
     \<lparr>Id = i, lastHeader = None, lastInAbsoluteTimestamp = 0, currentMessage = None\<rparr>"

text \<open>Modelled from the spec: \<^verbatim>\<open>NewOutboundChunkStream\<close> is not in the source files. A
  fresh outbound chunk stream has its id and no last header sent.\<close>

definition NewOutboundChunkStream :: "uint32 \<Rightarrow> OutboundChunkStream" where
  "NewOutboundChunkStream i = \<lparr>Id_out = i, lastHeader_out = None\<rparr>"

text \<open>Modelled from the spec: \<^verbatim>\<open>OutboundChunkStream.NewOutboundHeader\<close> is not in the
  source files. Section 4.3: the send path constructs a header in FULL format for the first
  chunk of every message, each message starting fresh; the header describes the message
  (its timestamp, declared length, type and stream id) on the chunk stream's id.\<close>

definition NewOutboundHeader :: "OutboundChunkStream \<Rightarrow> Message \<Rightarrow> Header" where
  "NewOutboundHeader cs m =
     \<lparr>Format = HEADER_FORMAT_FULL, ChunkStreamId_h = Id_out cs, Timestamp_h = Timestamp m,
      MessageLength = Length m, MessageTypeId = Type m, MessageStreamId = StreamId m\<rparr>"

text \<open>Modelled from the spec: \<^verbatim>\<open>Message.RemainingBytes\<close> is not in the source files.
  Section 3: a message is complete exactly when its buffer holds the declared length; what
  remains is the declared length minus the bytes buffered, in \<^verbatim>\<open>uint32\<close>.\<close>

definition RemainingBytes :: "Message \<Rightarrow> uint32" where
  "RemainingBytes m = Length m - word_of_nat (length (Buffer m))"

text \<open>Modelled from the spec: \<^verbatim>\<open>Header.CalculateTimestamp\<close> is not in the source files.
  Section 4.1: an extended timestamp replaces the 3-byte field when the header is decoded,
  so the header's timestamp field is the message-local timestamp.\<close>

definition CalculateTimestamp :: "Header \<Rightarrow> uint32" where
  "CalculateTimestamp h = Timestamp_h h"

subsection \<open>The connection\<close>

text \<open>
  The header codec (\<^verbatim>\<open>ReadHeader\<close>, \<^verbatim>\<open>Header.Write\<close>) is not in the source files, and
  the spec leaves the byte order of its fields open. The connection is therefore a
  sequence of items, a header item for the bytes of one encoded header and a byte item for
  one payload byte. A header item holds the header as the decoder yields it from those
  bytes. \<open>inbound\<close> is what the peer has sent and the client has not read yet,
  \<open>outbound\<close> what the client has written. \<open>alive\<close> is false once the transport has
  failed or the connection has been closed: every read and write then fails.
  \<open>close_calls\<close> counts the calls of \<^verbatim>\<open>conn.Close\<close>.
\<close>

datatype wire = WHeader Header | WByte uint8

record Conn =
  inbound :: "wire list"
  outbound :: "wire list"
  alive :: bool
  close_calls :: nat

definition Close :: "Conn \<Rightarrow> Conn" where
  "Close cn = cn\<lparr>alive := False, close_calls := Suc (close_calls cn)\<rparr>"

text \<open>Modelled from the spec: the header codec is not in the source files. Section 4.1:
  the basic header of one to three bytes holds the format in two bits and the chunk-stream
  id in the remaining six bits, or in one more byte for the ids from 64 on, or in two more
  bytes for the ids from 320 on. The extended forms hold the id less 64.\<close>

datatype basic_id = Id_short "6 word" | Id_byte "8 word" | Id_wide "16 word"

definition encode_id :: "uint32 \<Rightarrow> basic_id" where
  "encode_id i =
     (if i < 64 then Id_short (ucast i)
      else if i < 320 then Id_byte (ucast (i - 64))
      else Id_wide (ucast (i - 64)))"

fun decode_id :: "basic_id \<Rightarrow> uint32" where
  "decode_id (Id_short x) = ucast x"
| "decode_id (Id_byte x) = ucast x + 64"
| "decode_id (Id_wide x) = ucast x + 64"

text \<open>Modelled from the spec: the timestamp field of three bytes. Sections 3 and 4.1: it
  holds a 24-bit timestamp, or the marker \<^verbatim>\<open>0xFFFFFF\<close> with a 32-bit extended timestamp
  after it, which replaces it when the header is decoded.\<close>

datatype timestamp_field = Short "24 word" | Extended uint32

definition encode_timestamp :: "uint32 \<Rightarrow> timestamp_field" where
  "encode_timestamp t = (if t < TIMESTAMP_EXTENDED then Short (ucast t) else Extended t)"

fun decode_timestamp :: "timestamp_field \<Rightarrow> uint32" where
  "decode_timestamp (Short x) = ucast x"
| "decode_timestamp (Extended t) = t"

text \<open>Modelled from the spec: the message header, by format (the table of section 4.1):
  FULL has timestamp (3 bytes), length (3 bytes), type (1 byte) and stream id (4 bytes);
  SAME_STREAM has timestamp delta, length and type; SAME_LENGTH_AND_STREAM has the
  timestamp delta; CONTINUATION has nothing.\<close>

datatype message_header =
    MH_FULL timestamp_field "24 word" uint8 uint32
  | MH_SAME_STREAM timestamp_field "24 word" uint8
  | MH_SAME_LENGTH_AND_STREAM timestamp_field
  | MH_CONTINUATION

datatype encoded_header = Encoded basic_id message_header

text \<open>Modelled from the spec: encoding a header. The format is two bits; a field wider
  than its place on the wire loses its upper bits.\<close>

definition Header_encode :: "Header \<Rightarrow> encoded_header" where
  "Header_encode h =
     Encoded (encode_id (ChunkStreamId_h h))
       (if Format h AND 3 = HEADER_FORMAT_FULL then
          MH_FULL (encode_timestamp (Timestamp_h h)) (ucast (MessageLength h))
            (MessageTypeId h) (MessageStreamId h)
        else if Format h AND 3 = HEADER_FORMAT_SAME_STREAM then
          MH_SAME_STREAM (encode_timestamp (Timestamp_h h)) (ucast (MessageLength h))
            (MessageTypeId h)
        else if Format h AND 3 = HEADER_FORMAT_SAME_LENGTH_AND_STREAM then
          MH_SAME_LENGTH_AND_STREAM (encode_timestamp (Timestamp_h h))
        else MH_CONTINUATION)"

text \<open>Modelled from the spec: decoding a header. It populates the header from what is
  on the wire; a field that is not on the wire is zero.\<close>

fun Header_decode :: "encoded_header \<Rightarrow> Header" where
  "Header_decode (Encoded i (MH_FULL t l ty s)) =
     \<lparr>Format = HEADER_FORMAT_FULL, ChunkStreamId_h = decode_id i,
      Timestamp_h = decode_timestamp t, MessageLength = ucast l, MessageTypeId = ty,
      MessageStreamId = s\<rparr>"
| "Header_decode (Encoded i (MH_SAME_STREAM t l ty)) =
     \<lparr>Format = HEADER_FORMAT_SAME_STREAM, ChunkStreamId_h = decode_id i,
      Timestamp_h = decode_timestamp t, MessageLength = ucast l, MessageTypeId = ty,
      MessageStreamId = 0\<rparr>"
| "Header_decode (Encoded i (MH_SAME_LENGTH_AND_STREAM t)) =
     \<lparr>Format = HEADER_FORMAT_SAME_LENGTH_AND_STREAM, ChunkStreamId_h = decode_id i,
      Timestamp_h = decode_timestamp t, MessageLength = 0, MessageTypeId = 0,
      MessageStreamId = 0\<rparr>"
| "Header_decode (Encoded i MH_CONTINUATION) =
     \<lparr>Format = HEADER_FORMAT_CONTINUATION, ChunkStreamId_h = decode_id i,
      Timestamp_h = 0, MessageLength = 0, MessageTypeId = 0, MessageStreamId = 0\<rparr>"

text \<open>The header that the peer's decoder yields for a header as the encoder writes it.\<close>

definition on_wire :: "Header \<Rightarrow> Header" where
  "on_wire h = Header_decode (Header_encode h)"

text \<open>Modelled from the spec: \<^verbatim>\<open>Header.Write\<close> is not in the source files. Section 4.1:
  encode writes the header in the shape of its format; a write on a failed connection is
  an error (\<open>None\<close>).\<close>

definition Header_Write :: "Header \<Rightarrow> Conn \<Rightarrow> Conn option" where
  "Header_Write h cn =
     (if alive cn
      then Some (cn\<lparr>outbound := outbound cn @ [WHeader (on_wire h)]\<rparr>)
      else None)"

text \<open>Modelled from the spec: \<^verbatim>\<open>ReadHeader\<close> is not in the source files. Section 4.1:
  decode populates a header from the wire and fails on a short or disconnected read; here
  it fails too where the stream does not continue with a header. The header item read
  holds the decoded header.\<close>

definition ReadHeader :: "Conn \<Rightarrow> (Header \<times> Conn) option" where
  "ReadHeader cn =
     (if alive cn then
        (case inbound cn of
           WHeader h # rest \<Rightarrow> Some (h, cn\<lparr>inbound := rest\<rparr>)
         | _ \<Rightarrow> None)
      else None)"

text \<open>
  \<^verbatim>\<open>io.CopyN(m.Buffer, c, n)\<close>: copy \<open>n\<close> payload bytes from the connection. With
  \<open>n = 0\<close> nothing is read and the call succeeds. Otherwise the bytes that arrive before
  the stream ends are copied, and the call fails unless there are \<open>n\<close> of them. The result
  is the bytes copied, the connection and whether the call succeeded.
\<close>

fun payload_prefix :: "nat \<Rightarrow> wire list \<Rightarrow> uint8 list" where
  "payload_prefix 0 w = []"
| "payload_prefix (Suc n) (WByte b # w) = b # payload_prefix n w"
| "payload_prefix (Suc n) w = []"

definition CopyN_in :: "Conn \<Rightarrow> nat \<Rightarrow> uint8 list \<times> Conn \<times> bool" where
  "CopyN_in cn n =
     (if n = 0 then ([], cn, True)
      else if \<not> alive cn then ([], cn, False)
      else let bs = payload_prefix n (inbound cn)
           in (bs, cn\<lparr>inbound := drop (length bs) (inbound cn)\<rparr>, length bs = n))"

text \<open>
  \<^verbatim>\<open>io.CopyN(c, m.Buffer, n)\<close>: copy \<open>n\<close> bytes of the message buffer to the
  connection. The bytes are read from the buffer first; what the buffer holds (at most
  \<open>n\<close> bytes) is written, and the call fails when the connection has failed or the buffer
  holds fewer than \<open>n\<close> bytes. The result is the number of bytes written, the rest of
  the buffer, the connection and whether the call succeeded.
\<close>

definition CopyN_out :: "Conn \<Rightarrow> uint8 list \<Rightarrow> nat \<Rightarrow> nat \<times> uint8 list \<times> Conn \<times> bool" where
  "CopyN_out cn buf n =
     (if n = 0 then (0, buf, cn, True)
      else if buf = [] then (0, buf, cn, False)
      else if \<not> alive cn then (0, drop n buf, cn, False)
      else (length (take n buf), drop n buf,
            cn\<lparr>outbound := outbound cn @ map WByte (take n buf)\<rparr>, n \<le> length buf))"

subsection \<open>The client\<close>

text \<open>
  \<open>handler_calls\<close> is the sequence of calls made on the \<^verbatim>\<open>handler\<close> field, the
  \<^verbatim>\<open>ClientHandler\<close> interface through which the application is told of events. The
  fields \<^verbatim>\<open>url\<close>, \<^verbatim>\<open>inNotify\<close>, \<^verbatim>\<open>lastTransactionId\<close>, the window sizes and the byte
  counters are left out: the loops only log them. The channels have capacity 100 in the
  source; a full channel blocks the sender, which the sequential model does not show.
\<close>

datatype handler_call = OnConnect | OnDisconnect | OnReceive Message

record Client =
  handler_calls :: "handler_call list"
  connected :: bool
  conn :: Conn
  outMessages :: "Message list"
  outChunkSize :: uint32
  outChunkStreams :: "uint32 \<rightharpoonup> OutboundChunkStream"
  inMessages :: "Message list"
  inChunkSize :: uint32
  inChunkStreams :: "uint32 \<rightharpoonup> InboundChunkStream"

text \<open>The state that \<^verbatim>\<open>NewClient\<close> builds, on a given connection.\<close>

definition NewClient :: "Conn \<Rightarrow> Client" where
  "NewClient cn =
     \<lparr>handler_calls = [], connected = False, conn = cn,
      outMessages = [], outChunkSize = DEFAULT_CHUNK_SIZE, outChunkStreams = Map.empty,
      inMessages = [], inChunkSize = DEFAULT_CHUNK_SIZE, inChunkStreams = Map.empty\<rparr>"

definition Disconnect :: "Client \<Rightarrow> Client" where
  "Disconnect c = c\<lparr>connected := False, conn := Close (conn c)\<rparr>"

text \<open>What one pass through the body of a loop ends in: the next pass, the
  \<^verbatim>\<open>return\<close> that ends the loop, or a panic.\<close>

datatype 'a outcome = Continue 'a | Return 'a | Panic

subsection \<open>Dispatch\<close>

text \<open>\<^verbatim>\<open>binary.BigEndian.Uint32\<close> of the Go library: the first four bytes, most
  significant first; a slice of fewer than four bytes panics.\<close>

fun BigEndian_Uint32 :: "uint8 list \<Rightarrow> uint32 option" where
  "BigEndian_Uint32 (b0 # b1 # b2 # b3 # bs) =
     Some (ucast b3 OR push_bit 8 (ucast b2) OR push_bit 16 (ucast b1) OR push_bit 24 (ucast b0))"
| "BigEndian_Uint32 bs = None"

definition handleProtocolMessage :: "Client \<Rightarrow> Message \<Rightarrow> Client outcome" where
  "handleProtocolMessage c m =
     (if Type m = MESSAGE_TYPE_CHUNK_SIZE then
        (case BigEndian_Uint32 (Buffer m) of
           None \<Rightarrow> Panic
         | Some sz \<Rightarrow> Continue (c\<lparr>inChunkSize := sz\<rparr>))
      else if Type m = MESSAGE_TYPE_ACK_SIZE then Continue c
      else if Type m = MESSAGE_TYPE_BANDWIDTH then
        (case BigEndian_Uint32 (Buffer m) of
           None \<Rightarrow> Panic
         | Some sz \<Rightarrow> Continue c)
      else Continue c)"

definition handleCommandMessage :: "Client \<Rightarrow> Message \<Rightarrow> Client" where
  "handleCommandMessage c m = c\<lparr>connected := True\<rparr>"

text \<open>The body of \<^verbatim>\<open>dispatchLoop\<close> for the message \<open>m\<close> taken from the channel.\<close>

definition dispatch :: "Client \<Rightarrow> Message \<Rightarrow> Client outcome" where
  "dispatch c m =
     (if ChunkStreamId m = CHUNK_STREAM_ID_PROTOCOL then handleProtocolMessage c m
      else if ChunkStreamId m = CHUNK_STREAM_ID_COMMAND then Continue (handleCommandMessage c m)
      else Continue c)"

lemma dispatch_inMessages: "dispatch c m = Continue c' \<Longrightarrow> inMessages c' = inMessages c"
  by (auto simp: dispatch_def handleProtocolMessage_def handleCommandMessage_def
      split: if_splits option.splits)

text \<open>\<^verbatim>\<open>dispatchLoop\<close>: it takes the messages from the channel one by one, until the
  channel is empty, where it blocks (the result is the state it waits in), or until a
  handler panics.\<close>

function dispatchLoop :: "Client \<Rightarrow> Client outcome" where
  "dispatchLoop c =
     (case inMessages c of
        [] \<Rightarrow> Continue c
      | m # q \<Rightarrow>
          (case dispatch (c\<lparr>inMessages := q\<rparr>) m of
             Continue c' \<Rightarrow> dispatchLoop c'
           | r \<Rightarrow> r))"
  by pat_completeness auto
termination
  by (relation "measure (\<lambda>c. length (inMessages c))") (auto dest: dispatch_inMessages)

subsection \<open>Receive\<close>

text \<open>
  The \<^verbatim>\<open>switch\<close> of \<^verbatim>\<open>receiveLoop\<close> on the header's format: the fields the header
  inherits from \<^verbatim>\<open>cs.lastHeader\<close>, the new \<^verbatim>\<open>cs.lastHeader\<close>, the working timestamp
  \<^verbatim>\<open>ts\<close> and the message \<^verbatim>\<open>m\<close> to go on with, if any. A format outside the four cases
  leaves \<^verbatim>\<open>ts\<close> zero and \<^verbatim>\<open>m\<close> nil. Reading a field of a nil \<^verbatim>\<open>cs.lastHeader\<close>
  panics (\<open>None\<close>).
\<close>

definition resolve ::
  "Header \<Rightarrow> InboundChunkStream \<Rightarrow> (Header \<times> InboundChunkStream \<times> uint32 \<times> Message option) option"
where
  "resolve h cs =
     (if Format h = HEADER_FORMAT_FULL then
        Some (h, cs\<lparr>lastHeader := Some h\<rparr>, Timestamp_h h, None)
      else if Format h = HEADER_FORMAT_SAME_STREAM then
        (case lastHeader cs of
           None \<Rightarrow> None
         | Some lh \<Rightarrow>
             let h' = h\<lparr>MessageStreamId := MessageStreamId lh\<rparr>
             in Some (h', cs\<lparr>lastHeader := Some h'\<rparr>,
                      lastInAbsoluteTimestamp cs + Timestamp_h h', None))
      else if Format h = HEADER_FORMAT_SAME_LENGTH_AND_STREAM then
        (case lastHeader cs of
           None \<Rightarrow> None
         | Some lh \<Rightarrow>
             let h' = h\<lparr>MessageStreamId := MessageStreamId lh,
                        MessageLength := MessageLength lh,
                        MessageTypeId := MessageTypeId lh\<rparr>
             in Some (h', cs\<lparr>lastHeader := Some h'\<rparr>,
                      lastInAbsoluteTimestamp cs + Timestamp_h h', None))
      else if Format h = HEADER_FORMAT_CONTINUATION then
        (case lastHeader cs of
           None \<Rightarrow> None
         | Some lh \<Rightarrow>
             let h' = h\<lparr>MessageStreamId := MessageStreamId lh,
                        MessageLength := MessageLength lh,
                        MessageTypeId := MessageTypeId lh,
                        Timestamp_h := Timestamp_h lh\<rparr>
             in Some (h', cs, lastInAbsoluteTimestamp cs + Timestamp_h lh, currentMessage cs))
      else Some (h, cs, 0, None))"

text \<open>
  The rest of the loop body, from \<^verbatim>\<open>if m == nil\<close> on, for the header \<open>h\<close> and the
  chunk stream \<open>cs\<close> as the switch left them. \<open>cs\<close> is a pointer into the map in the
  source: the model stores the chunk stream back where the body ends. When the copy fails
  on a message taken from the chunk stream, the bytes copied so far are in that message.
\<close>

definition receive_body ::
  "Client \<Rightarrow> Header \<Rightarrow> InboundChunkStream \<Rightarrow> uint32 \<Rightarrow> Message option \<Rightarrow> Client outcome"
where
  "receive_body c h cs ts m0 =
     (let m = (case m0 of
                 None \<Rightarrow>
                   \<lparr>Type = MessageTypeId h, ChunkStreamId = ChunkStreamId_h h,
                    StreamId = MessageStreamId h, Timestamp = CalculateTimestamp h,
                    AbsoluteTimestamp = ts, Length = MessageLength h, Buffer = []\<rparr>
               | Some m \<Rightarrow> m);
          cs1 = cs\<lparr>lastInAbsoluteTimestamp := ts\<rparr>;
          rs = (if RemainingBytes m > inChunkSize c then inChunkSize c else RemainingBytes m);
          (bs, cn, ok) = CopyN_in (conn c) (unat rs);
          m' = m\<lparr>Buffer := Buffer m @ bs\<rparr>;
          c1 = c\<lparr>conn := cn\<rparr>
      in if \<not> ok then
           (let cs2 = (case m0 of None \<Rightarrow> cs1 | Some _ \<Rightarrow> cs1\<lparr>currentMessage := Some m'\<rparr>);
                c2 = c1\<lparr>inChunkStreams := (inChunkStreams c1)(ChunkStreamId_h h \<mapsto> cs2)\<rparr>
            in Return (if connected c2 then Disconnect c2 else c2))
         else if RemainingBytes m' = 0 then
           Continue (c1\<lparr>inChunkStreams :=
                          (inChunkStreams c1)(ChunkStreamId_h h \<mapsto> cs1\<lparr>currentMessage := None\<rparr>),
                        inMessages := inMessages c1 @ [m']\<rparr>)
         else
           Continue (c1\<lparr>inChunkStreams :=
                          (inChunkStreams c1)(ChunkStreamId_h h \<mapsto> cs1\<lparr>currentMessage := Some m'\<rparr>)\<rparr>))"

text \<open>One pass through the body of \<^verbatim>\<open>receiveLoop\<close>.\<close>

definition receive_iter :: "Client \<Rightarrow> Client outcome" where
  "receive_iter c =
     (case ReadHeader (conn c) of
        None \<Rightarrow> Return (if connected c then Disconnect c else c)
      | Some (h, cn) \<Rightarrow>
          let cs = (case inChunkStreams c (ChunkStreamId_h h) of
                      None \<Rightarrow> NewInboundChunkStream (ChunkStreamId_h h)
                    | Some cs \<Rightarrow> cs);
              c1 = c\<lparr>conn := cn, inChunkStreams := (inChunkStreams c)(ChunkStreamId_h h \<mapsto> cs)\<rparr>
          in if lastHeader cs = None \<and> Format h \<noteq> HEADER_FORMAT_FULL then Return (Disconnect c1)
             else (case resolve h cs of
                     None \<Rightarrow> Panic
                   | Some (h', cs', ts, m0) \<Rightarrow> receive_body c1 h' cs' ts m0))"

lemma payload_prefix_length: "length (payload_prefix n w) \<le> n"
  by (induction n w rule: payload_prefix.induct) auto

lemma CopyN_in_inbound:
  "CopyN_in cn n = (bs, cn', ok) \<Longrightarrow> length (inbound cn') \<le> length (inbound cn)"
  by (auto simp: CopyN_in_def Let_def split: if_splits)

lemma receive_body_inbound:
  "receive_body c h cs ts m0 = Continue c' \<Longrightarrow>
     length (inbound (conn c')) \<le> length (inbound (conn c))"
  by (auto simp: receive_body_def Let_def split: prod.splits if_splits dest: CopyN_in_inbound)

lemma receive_iter_inbound:
  "receive_iter c = Continue c' \<Longrightarrow> length (inbound (conn c')) < length (inbound (conn c))"
  by (auto simp: receive_iter_def ReadHeader_def Let_def
      split: option.splits prod.splits if_splits list.splits wire.splits
      dest!: receive_body_inbound)

text \<open>\<^verbatim>\<open>receiveLoop\<close>: the body is repeated until it returns or panics. Every pass
  reads a header, so the loop ends on a finite input (with a failed read at the latest).\<close>

function receiveLoop :: "Client \<Rightarrow> Client outcome" where
  "receiveLoop c =
     (case receive_iter c of
        Continue c' \<Rightarrow> receiveLoop c'
      | r \<Rightarrow> r)"
  by pat_completeness auto
termination
  by (relation "measure (\<lambda>c. length (inbound (conn c)))") (auto dest: receive_iter_inbound)

subsection \<open>Send\<close>

text \<open>
  The inner loop of \<^verbatim>\<open>sendLoop\<close>, \<^verbatim>\<open>for rem > 0\<close>, on the header \<open>h\<close>, the message
  buffer and \<^verbatim>\<open>rem\<close>. With an outbound chunk size of zero the source's loop does not end;
  the function is partial and \<open>None\<close> is the run that does not return.
\<close>

partial_function (option) send_chunks ::
  "Client \<Rightarrow> Header \<Rightarrow> uint8 list \<Rightarrow> uint32 \<Rightarrow> Client outcome option"
where
  "send_chunks c h buf rem =
     (if 0 < rem then
        (case Header_Write h (conn c) of
           None \<Rightarrow> Some (Return (if connected c then Disconnect c else c))
         | Some cn \<Rightarrow>
             let ws = (if rem > outChunkSize c then outChunkSize c else rem);
                 (n, buf', cn', ok) = CopyN_out cn buf (unat ws);
                 c' = c\<lparr>conn := cn'\<rparr>
             in if \<not> ok then Some (Return (if connected c' then Disconnect c' else c'))
                else send_chunks c' (h\<lparr>Format := HEADER_FORMAT_CONTINUATION\<rparr>) buf'
                       (rem - word_of_nat n))
      else Some (Continue c))"

text \<open>The body of \<^verbatim>\<open>sendLoop\<close> for the message \<open>m\<close> taken from the channel. The chunk
  stream found or made is a local variable: the source does not store it in the map.\<close>

definition send_message :: "Client \<Rightarrow> Message \<Rightarrow> Client outcome option" where
  "send_message c m =
     (let cs = (case outChunkStreams c (ChunkStreamId m) of
                  None \<Rightarrow> NewOutboundChunkStream (ChunkStreamId m)
                | Some cs \<Rightarrow> cs);
          h = NewOutboundHeader cs m
      in send_chunks c h (Buffer m) (Length m))"

text \<open>\<^verbatim>\<open>sendLoop\<close>: the messages are taken from the channel one by one, until the channel
  is empty, where the loop blocks, or until a write fails.\<close>

partial_function (option) sendLoop :: "Client \<Rightarrow> Client outcome option" where
  "sendLoop c =
     (case outMessages c of
        [] \<Rightarrow> Some (Continue c)
      | m # q \<Rightarrow>
          Option.bind (send_message (c\<lparr>outMessages := q\<rparr>) m)
            (\<lambda>r. case r of Continue c' \<Rightarrow> sendLoop c' | _ \<Rightarrow> Some r))"

subsection \<open>Chunk sequences\<close>

text \<open>
  The chunk sequence of a payload for a chunk size \<open>C\<close>: a header and at most \<open>C\<close>
  bytes, then the rest under a CONTINUATION header, until the payload is used up. The send
  path is proved to write it.
\<close>

function frame :: "nat \<Rightarrow> Header \<Rightarrow> uint8 list \<Rightarrow> wire list" where
  "frame C h buf =
     (if C = 0 \<or> buf = [] then []
      else WHeader (on_wire h) # map WByte (take C buf)
             @ frame C (h\<lparr>Format := HEADER_FORMAT_CONTINUATION\<rparr>) (drop C buf))"
  by pat_completeness auto
termination
  by (relation "measure (\<lambda>(C, h, buf). length buf)") auto

text \<open>
  The chunks of a sequence of wire items, as the sizes of their payloads: every header
  begins a chunk, which holds the bytes up to the next header. The first component counts
  the bytes before the first header.
\<close>

fun split_chunks :: "wire list \<Rightarrow> nat \<times> nat list" where
  "split_chunks [] = (0, [])"
| "split_chunks (WByte b # w) = (Suc (fst (split_chunks w)), snd (split_chunks w))"
| "split_chunks (WHeader h # w) = (0, fst (split_chunks w) # snd (split_chunks w))"

definition chunk_sizes :: "wire list \<Rightarrow> nat list" where
  "chunk_sizes w = snd (split_chunks w)"

text \<open>The last resolved absolute timestamp of chunk stream \<open>i\<close> where a loop has ended.\<close>

definition ended_with_timestamp :: "uint32 \<Rightarrow> Client outcome \<Rightarrow> uint32 option" where
  "ended_with_timestamp i r =
     (case r of
        Return c \<Rightarrow> map_option lastInAbsoluteTimestamp (inChunkStreams c i)
      | _ \<Rightarrow> None)"

subsection \<open>Example data\<close>

text \<open>A connection that is up, with nothing to read and nothing written.\<close>

definition conn0 :: Conn where
  "conn0 = \<lparr>inbound = [], outbound = [], alive = True, close_calls = 0\<rparr>"

text \<open>A message on chunk stream \<open>i\<close> of type \<open>t\<close> with payload \<open>bs\<close>.\<close>

definition msg_on :: "uint32 \<Rightarrow> uint8 \<Rightarrow> uint8 list \<Rightarrow> Message" where
  "msg_on i t bs =
     \<lparr>Type = t, ChunkStreamId = i, StreamId = 1, Timestamp = 7, AbsoluteTimestamp = 7,
      Length = word_of_nat (length bs), Buffer = bs\<rparr>"

text \<open>A FULL header on chunk stream 5 for a message of three bytes with timestamp 5, and
  a header of format \<open>f\<close> on the same chunk stream as it is decoded, with timestamp
  field \<open>d\<close>.\<close>

definition ex_full :: Header where
  "ex_full = \<lparr>Format = HEADER_FORMAT_FULL, ChunkStreamId_h = 5, Timestamp_h = 5,
     MessageLength = 3, MessageTypeId = MESSAGE_TYPE_AMF0, MessageStreamId = 1\<rparr>"

definition ex_hdr :: "uint8 \<Rightarrow> uint32 \<Rightarrow> Header" where
  "ex_hdr f d = \<lparr>Format = f, ChunkStreamId_h = 5, Timestamp_h = d,
     MessageLength = 0, MessageTypeId = 0, MessageStreamId = 0\<rparr>"

text \<open>That message in three chunks of one byte.\<close>

definition ex_three_chunks :: "wire list" where
  "ex_three_chunks =
     [WHeader ex_full, WByte 1,
      WHeader (ex_hdr HEADER_FORMAT_CONTINUATION 0), WByte 2,
      WHeader (ex_hdr HEADER_FORMAT_CONTINUATION 0), WByte 3]"

text \<open>The message after its first chunk.\<close>

definition ex_partial :: Message where
  "ex_partial = \<lparr>Type = MESSAGE_TYPE_AMF0, ChunkStreamId = 5, StreamId = 1, Timestamp = 5,
     AbsoluteTimestamp = 5, Length = 3, Buffer = [1]\<rparr>"

text \<open>New clients: a receiver with inbound chunk size \<open>n\<close> that has \<open>w\<close> to read, and
  a sender with outbound chunk size \<open>n\<close>.\<close>

definition ex_client :: "uint32 \<Rightarrow> wire list \<Rightarrow> Client" where
  "ex_client n w = (NewClient (conn0\<lparr>inbound := w\<rparr>))\<lparr>inChunkSize := n\<rparr>"

definition ex_sender :: "uint32 \<Rightarrow> Client" where
  "ex_sender n = (NewClient conn0)\<lparr>outChunkSize := n\<rparr>"

text \<open>Receivers on whose chunk stream 5 the FULL header has been seen: one with the
  message complete, one with the message in progress after its first chunk.\<close>

definition ex_established :: "wire list \<Rightarrow> Client" where
  "ex_established w =
     (ex_client 128 w)\<lparr>inChunkStreams :=
        [5 \<mapsto> \<lparr>Id = 5, lastHeader = Some ex_full, lastInAbsoluteTimestamp = 5,
               currentMessage = None\<rparr>]\<rparr>"

definition ex_in_progress :: "wire list \<Rightarrow> Client" where
  "ex_in_progress w =
     (ex_client 1 w)\<lparr>inChunkStreams :=
        [5 \<mapsto> \<lparr>Id = 5, lastHeader = Some ex_full, lastInAbsoluteTimestamp = 5,
               currentMessage = Some ex_partial\<rparr>]\<rparr>"


subsection \<open>Passes of the receive loop\<close>






section \<open>Properties\<close>

subsection \<open>What the send path leaves unchanged\<close>

lemma send_chunks_keeps:
  assumes "send_chunks c h buf rem = Some r"
  shows "\<forall>c'. r = Continue c' \<or> r = Return c' \<longrightarrow>
           (connected c' \<longrightarrow> connected c) \<and> outChunkStreams c' = outChunkStreams c
           \<and> handler_calls c' = handler_calls c"
  using assms
proof (rule send_chunks.raw_induct [rotated])
  fix f :: "Client \<Rightarrow> Header \<Rightarrow> uint8 list \<Rightarrow> uint32 \<Rightarrow> Client outcome option"
    and c :: Client and h buf rem r
  assume IH: "\<And>c h buf rem r. f c h buf rem = Some r \<Longrightarrow>
     \<forall>c'. r = Continue c' \<or> r = Return c' \<longrightarrow>
       (connected c' \<longrightarrow> connected c) \<and> outChunkStreams c' = outChunkStreams c
       \<and> handler_calls c' = handler_calls c"
  assume eq: "(if 0 < rem
      then case Header_Write h (conn c) of
           None \<Rightarrow> Some (Return (if connected c then Disconnect c else c))
           | Some cn \<Rightarrow>
               let ws = if outChunkSize c < rem then outChunkSize c else rem;
                   (n, buf', cn', ok) = CopyN_out cn buf (unat ws);
                   c' = c\<lparr>conn := cn'\<rparr>
               in if \<not> ok
                  then Some (Return (if connected c' then Disconnect c' else c'))
                  else f c' (h\<lparr>Format := HEADER_FORMAT_CONTINUATION\<rparr>) buf'
                        (rem - word_of_nat n)
      else Some (Continue c)) = Some r"
  show "\<forall>c'. r = Continue c' \<or> r = Return c' \<longrightarrow>
       (connected c' \<longrightarrow> connected c) \<and> outChunkStreams c' = outChunkStreams c
       \<and> handler_calls c' = handler_calls c"
    using eq
    by (auto simp: Disconnect_def Let_def split: if_splits option.splits prod.splits dest!: IH)
qed

lemma send_message_keeps:
  "send_message c m = Some r \<Longrightarrow> r = Continue c' \<or> r = Return c' \<Longrightarrow>
     (connected c' \<longrightarrow> connected c) \<and> outChunkStreams c' = outChunkStreams c
     \<and> handler_calls c' = handler_calls c"
  unfolding send_message_def Let_def by (blast dest: send_chunks_keeps)

subsection \<open>What the receive path leaves unchanged\<close>

lemma receive_body_keeps:
  "receive_body c h cs ts m0 = r \<Longrightarrow> r = Continue c' \<or> r = Return c' \<Longrightarrow>
     (connected c' \<longrightarrow> connected c) \<and> handler_calls c' = handler_calls c"
  by (auto simp: receive_body_def Disconnect_def Let_def split: if_splits option.splits prod.splits)

lemma receive_iter_keeps:
  "receive_iter c = r \<Longrightarrow> r = Continue c' \<or> r = Return c' \<Longrightarrow>
     (connected c' \<longrightarrow> connected c) \<and> handler_calls c' = handler_calls c"
  by (auto simp: receive_iter_def Disconnect_def Let_def split: if_splits option.splits prod.splits
     dest: receive_body_keeps)

subsection \<open>Dispatch\<close>

text \<open>
  C2 (as amended). A message taken from the channel is routed by its chunk-stream id: id 2
  goes to the protocol control handler, id 3 to the command handler, and a message on any
  other id is dropped, the client unchanged. No route calls the application handler.
\<close>

theorem C2_dispatch_routes:
  "(ChunkStreamId m = CHUNK_STREAM_ID_PROTOCOL \<longrightarrow> dispatch c m = handleProtocolMessage c m)
   \<and> (ChunkStreamId m = CHUNK_STREAM_ID_COMMAND \<longrightarrow>
        dispatch c m = Continue (handleCommandMessage c m))
   \<and> (ChunkStreamId m \<noteq> CHUNK_STREAM_ID_PROTOCOL \<and> ChunkStreamId m \<noteq> CHUNK_STREAM_ID_COMMAND \<longrightarrow>
        dispatch c m = Continue c)
   \<and> (dispatch c m = Continue c' \<longrightarrow> handler_calls c' = handler_calls c)"
  by (auto simp: dispatch_def handleProtocolMessage_def handleCommandMessage_def rtmp_consts
      split: if_splits option.splits)

theorem C2_dispatch_routes_witness:
  "dispatch (NewClient conn0) (msg_on 2 MESSAGE_TYPE_ACK_SIZE [0, 0, 0, 1]) =
     handleProtocolMessage (NewClient conn0) (msg_on 2 MESSAGE_TYPE_ACK_SIZE [0, 0, 0, 1])
   \<and> dispatch (NewClient conn0) (msg_on 3 MESSAGE_TYPE_AMF0 [1]) =
     Continue (handleCommandMessage (NewClient conn0) (msg_on 3 MESSAGE_TYPE_AMF0 [1]))
   \<and> dispatch (NewClient conn0) (msg_on 5 MESSAGE_TYPE_AMF0 [1]) = Continue (NewClient conn0)
   \<and> handler_calls (NewClient conn0) = []"
  using C2_dispatch_routes [of "msg_on 2 MESSAGE_TYPE_ACK_SIZE [0, 0, 0, 1]" "NewClient conn0"]
    C2_dispatch_routes [of "msg_on 3 MESSAGE_TYPE_AMF0 [1]" "NewClient conn0"]
    C2_dispatch_routes [of "msg_on 5 MESSAGE_TYPE_AMF0 [1]" "NewClient conn0" "NewClient conn0"]
  by (simp add: msg_on_def NewClient_def rtmp_consts)

text \<open>
  C2 as stated fails: a message on chunk-stream id 5 is dropped and \<^verbatim>\<open>OnReceive\<close> is not
  called with it.
\<close>

theorem C2_counterexample:
  "dispatch (NewClient conn0) (msg_on 5 MESSAGE_TYPE_AMF0 [1, 2, 3]) = Continue (NewClient conn0)
   \<and> OnReceive (msg_on 5 MESSAGE_TYPE_AMF0 [1, 2, 3]) \<notin> set (handler_calls (NewClient conn0))"
  by (simp add: dispatch_def msg_on_def NewClient_def rtmp_consts)

text \<open>
  C10. Handling a message on the command chunk stream sets \<open>connected\<close>, whatever the
  message holds and also after \<^verbatim>\<open>Disconnect\<close> has cleared the flag; and no other
  operation of the pipeline sets it: dispatch of a message on another chunk stream, a pass of
  the receive loop and the sending of a message leave a cleared flag cleared, and
  \<^verbatim>\<open>Disconnect\<close> clears it.
\<close>

theorem C10_only_command_sets_connected:
  "connected (handleCommandMessage c m)
   \<and> connected (handleCommandMessage (Disconnect c) m)
   \<and> (ChunkStreamId m = CHUNK_STREAM_ID_COMMAND \<longrightarrow>
        dispatch c m = Continue (handleCommandMessage c m))
   \<and> (ChunkStreamId m \<noteq> CHUNK_STREAM_ID_COMMAND \<and> dispatch c m = Continue c' \<and> connected c' \<longrightarrow>
        connected c)
   \<and> ((receive_iter c = Continue c' \<or> receive_iter c = Return c') \<and> connected c' \<longrightarrow>
        connected c)
   \<and> ((send_message c m = Some (Continue c') \<or> send_message c m = Some (Return c'))
        \<and> connected c' \<longrightarrow> connected c)
   \<and> \<not> connected (Disconnect c)"
proof -
  have command: "connected (handleCommandMessage c m)"
    "connected (handleCommandMessage (Disconnect c) m)"
    by (simp_all add: handleCommandMessage_def)
  have route: "ChunkStreamId m = CHUNK_STREAM_ID_COMMAND \<longrightarrow>
      dispatch c m = Continue (handleCommandMessage c m)"
    by (simp add: dispatch_def rtmp_consts)
  have other: "ChunkStreamId m \<noteq> CHUNK_STREAM_ID_COMMAND \<and> dispatch c m = Continue c' \<and> connected c' \<longrightarrow>
      connected c"
    by (auto simp: dispatch_def handleProtocolMessage_def split: if_splits option.splits)
  have recv: "(receive_iter c = Continue c' \<or> receive_iter c = Return c') \<and> connected c' \<longrightarrow>
      connected c"
    using receive_iter_keeps [of c _ c'] by blast
  have send: "(send_message c m = Some (Continue c') \<or> send_message c m = Some (Return c'))
      \<and> connected c' \<longrightarrow> connected c"
    using send_message_keeps [of c m _ c'] by blast
  have disc: "\<not> connected (Disconnect c)"
    by (simp add: Disconnect_def)
  from command route other recv send disc show ?thesis by blast
qed

theorem C10_only_command_sets_connected_witness:
  "\<not> connected (Disconnect (NewClient conn0))
   \<and> dispatch (Disconnect (NewClient conn0)) (msg_on 3 MESSAGE_TYPE_AMF0 [1]) =
       Continue (handleCommandMessage (Disconnect (NewClient conn0)) (msg_on 3 MESSAGE_TYPE_AMF0 [1]))
   \<and> connected (handleCommandMessage (Disconnect (NewClient conn0)) (msg_on 3 MESSAGE_TYPE_AMF0 [1]))"
  using C10_only_command_sets_connected
    [of "Disconnect (NewClient conn0)" "msg_on 3 MESSAGE_TYPE_AMF0 [1]"]
  by (simp add: msg_on_def Disconnect_def rtmp_consts)

subsection \<open>The outbound chunk-stream map\<close>

lemma send_message_outChunkStreams:
  "send_message c m = Some (Continue c') \<or> send_message c m = Some (Return c') \<Longrightarrow>
     outChunkStreams c' = outChunkStreams c"
  using send_message_keeps [of c m _ c'] by blast

text \<open>
  C9. The send path looks the chunk stream up in \<open>outChunkStreams\<close> and makes a new one
  when there is none, but never stores it: after a new client has sent a message on
  chunk-stream id 3, the map has no entry for id 3.
\<close>

theorem C9_send_stores_no_chunk_stream:
  "\<exists>c'. send_message (NewClient conn0) (msg_on 3 MESSAGE_TYPE_AMF0 [1]) = Some (Continue c')
        \<and> outbound (conn c') \<noteq> [] \<and> outChunkStreams c' 3 = None"
  by (simp add: send_message_def NewClient_def conn0_def msg_on_def NewOutboundChunkStream_def
      NewOutboundHeader_def send_chunks.simps Header_Write_def CopyN_out_def rtmp_consts)

subsection \<open>The first header on a chunk stream\<close>

text \<open>
  C4. When the next header on the connection is not in FULL format and its chunk stream has
  no last header (the map has no entry for the id, or the entry has none), the pass through
  the receive loop ends the loop with \<^verbatim>\<open>Disconnect\<close>: only the header has been read, no
  payload byte; no message is made, queued or left in progress by it; the chunk stream
  still has no last header.
\<close>

theorem C4_first_header_not_full:
  assumes "alive (conn c)"
    and "inbound (conn c) = WHeader h # rest"
    and "Format h \<noteq> HEADER_FORMAT_FULL"
    and "inChunkStreams c (ChunkStreamId_h h) = None \<and> cs = NewInboundChunkStream (ChunkStreamId_h h)
         \<or> inChunkStreams c (ChunkStreamId_h h) = Some cs \<and> lastHeader cs = None"
  shows "receive_iter c =
           Return (Disconnect (c\<lparr>conn := (conn c)\<lparr>inbound := rest\<rparr>,
                                 inChunkStreams := (inChunkStreams c)(ChunkStreamId_h h \<mapsto> cs)\<rparr>))
         \<and> receiveLoop c = receive_iter c
         \<and> lastHeader cs = None"
proof -
  have lh: "lastHeader cs = None"
    using assms(4) by (auto simp: NewInboundChunkStream_def)
  have hd: "ReadHeader (conn c) = Some (h, (conn c)\<lparr>inbound := rest\<rparr>)"
    using assms(1,2) by (simp add: ReadHeader_def)
  have it: "receive_iter c =
           Return (Disconnect (c\<lparr>conn := (conn c)\<lparr>inbound := rest\<rparr>,
                                 inChunkStreams := (inChunkStreams c)(ChunkStreamId_h h \<mapsto> cs)\<rparr>))"
    using assms(3,4) lh by (auto simp: receive_iter_def hd Let_def)
  have "receiveLoop c = receive_iter c"
    by (subst receiveLoop.simps) (simp add: it)
  with it lh show ?thesis by simp
qed

theorem C4_first_header_not_full_witness:
  "\<exists>c'. receiveLoop (ex_client 128 [WHeader (ex_hdr HEADER_FORMAT_CONTINUATION 0), WByte 1]) = Return c'
     \<and> \<not> connected c' \<and> \<not> alive (conn c') \<and> inbound (conn c') = [WByte 1]
     \<and> inMessages c' = []
     \<and> inChunkStreams c' 5 = Some (NewInboundChunkStream 5)"
  using C4_first_header_not_full
    [of "ex_client 128 [WHeader (ex_hdr HEADER_FORMAT_CONTINUATION 0), WByte 1]"
        "ex_hdr HEADER_FORMAT_CONTINUATION 0" "[WByte 1]" "NewInboundChunkStream 5"]
  by (simp add: ex_client_def NewClient_def conn0_def ex_hdr_def Disconnect_def Close_def
      rtmp_consts)

subsection \<open>Header inheritance\<close>


lemma receive_body_outcome:
  "\<exists>c' cs'. (receive_body c h cs ts m0 = Continue c' \<or> receive_body c h cs ts m0 = Return c')
     \<and> inChunkStreams c' (ChunkStreamId_h h) = Some cs'
     \<and> lastHeader cs' = lastHeader cs \<and> lastInAbsoluteTimestamp cs' = ts
     \<and> (receive_body c h cs ts m0 = Continue c' \<longrightarrow>
          (\<exists>m bs. (currentMessage cs' = Some m
                    \<or> currentMessage cs' = None \<and> inMessages c' = inMessages c @ [m])
             \<and> m = (case m0 of
                       None \<Rightarrow>
                         \<lparr>Type = MessageTypeId h, ChunkStreamId = ChunkStreamId_h h,
                          StreamId = MessageStreamId h, Timestamp = CalculateTimestamp h,
                          AbsoluteTimestamp = ts, Length = MessageLength h, Buffer = bs\<rparr>
                     | Some m1 \<Rightarrow> m1\<lparr>Buffer := Buffer m1 @ bs\<rparr>)))"
  by (auto simp: receive_body_def Let_def Disconnect_def split: prod.splits option.splits)



text \<open>
  C3 (as amended). A CONTINUATION header resolves its absolute timestamp as the chunk
  stream's last absolute timestamp plus the timestamp of the last header, and the result is
  stored as the chunk stream's last absolute timestamp; the last header stays as it was.
  So the same delta is added again by every chunk to a base that the chunk before has
  advanced. The message in progress keeps the absolute timestamp it was created with.
\<close>

theorem C3_continuation_timestamp:
  assumes "alive (conn c)"
    and "inbound (conn c) = WHeader h # rest"
    and "Format h = HEADER_FORMAT_CONTINUATION"
    and "inChunkStreams c (ChunkStreamId_h h) = Some cs"
    and "lastHeader cs = Some lh"
  shows "\<exists>c' cs'. (receive_iter c = Continue c' \<or> receive_iter c = Return c')
     \<and> inChunkStreams c' (ChunkStreamId_h h) = Some cs'
     \<and> lastHeader cs' = Some lh
     \<and> lastInAbsoluteTimestamp cs' = lastInAbsoluteTimestamp cs + Timestamp_h lh
     \<and> (\<forall>m0. receive_iter c = Continue c' \<and> currentMessage cs = Some m0 \<longrightarrow>
          (\<exists>m. (currentMessage cs' = Some m
                 \<or> currentMessage cs' = None \<and> inMessages c' = inMessages c @ [m])
             \<and> AbsoluteTimestamp m = AbsoluteTimestamp m0))"
proof -
  let ?h = "h\<lparr>MessageStreamId := MessageStreamId lh, MessageLength := MessageLength lh,
               MessageTypeId := MessageTypeId lh, Timestamp_h := Timestamp_h lh\<rparr>"
  let ?ts = "lastInAbsoluteTimestamp cs + Timestamp_h lh"
  let ?c = "c\<lparr>conn := (conn c)\<lparr>inbound := rest\<rparr>,
               inChunkStreams := (inChunkStreams c)(ChunkStreamId_h h \<mapsto> cs)\<rparr>"
  have hd: "ReadHeader (conn c) = Some (h, (conn c)\<lparr>inbound := rest\<rparr>)"
    using assms(1,2) by (simp add: ReadHeader_def)
  have rs: "resolve h cs = Some (?h, cs, ?ts, currentMessage cs)"
    using assms(3,5) by (simp add: resolve_def Let_def rtmp_consts)
  have it: "receive_iter c = receive_body ?c ?h cs ?ts (currentMessage cs)"
    using assms(4,5) by (simp add: receive_iter_def hd rs Let_def)
  from receive_body_outcome [of ?c ?h cs ?ts "currentMessage cs"]
  obtain c' cs' where
    r: "receive_iter c = Continue c' \<or> receive_iter c = Return c'"
    and cs': "inChunkStreams c' (ChunkStreamId_h ?h) = Some cs'"
      "lastHeader cs' = lastHeader cs"
      "lastInAbsoluteTimestamp cs' = ?ts"
    and msg: "receive_iter c = Continue c' \<longrightarrow>
          (\<exists>m bs. (currentMessage cs' = Some m
                    \<or> currentMessage cs' = None \<and> inMessages c' = inMessages ?c @ [m])
             \<and> m = (case currentMessage cs of
                       None \<Rightarrow>
                         \<lparr>Type = MessageTypeId ?h, ChunkStreamId = ChunkStreamId_h ?h,
                          StreamId = MessageStreamId ?h, Timestamp = CalculateTimestamp ?h,
                          AbsoluteTimestamp = ?ts, Length = MessageLength ?h, Buffer = bs\<rparr>
                     | Some m1 \<Rightarrow> m1\<lparr>Buffer := Buffer m1 @ bs\<rparr>))"
    unfolding it by blast
  have "\<forall>m0. receive_iter c = Continue c' \<and> currentMessage cs = Some m0 \<longrightarrow>
          (\<exists>m. (currentMessage cs' = Some m
                 \<or> currentMessage cs' = None \<and> inMessages c' = inMessages c @ [m])
             \<and> AbsoluteTimestamp m = AbsoluteTimestamp m0)"
  proof (intro allI impI)
    fix m0
    assume a: "receive_iter c = Continue c' \<and> currentMessage cs = Some m0"
    with msg obtain m bs where
      m: "currentMessage cs' = Some m
           \<or> currentMessage cs' = None \<and> inMessages c' = inMessages ?c @ [m]"
      and eq: "m = m0\<lparr>Buffer := Buffer m0 @ bs\<rparr>"
      by auto
    from m have "currentMessage cs' = Some m
           \<or> currentMessage cs' = None \<and> inMessages c' = inMessages c @ [m]"
      by simp
    moreover have "AbsoluteTimestamp m = AbsoluteTimestamp m0"
      by (simp add: eq)
    ultimately show "\<exists>m. (currentMessage cs' = Some m
                 \<or> currentMessage cs' = None \<and> inMessages c' = inMessages c @ [m])
             \<and> AbsoluteTimestamp m = AbsoluteTimestamp m0"
      by blast
  qed
  moreover from cs' assms(5) have "inChunkStreams c' (ChunkStreamId_h h) = Some cs'"
    "lastHeader cs' = Some lh" by simp_all
  ultimately show ?thesis
    using r cs'(3) by blast
qed

theorem C3_continuation_timestamp_witness:
  "\<exists>c' cs'. (receive_iter (ex_in_progress (drop 2 ex_three_chunks)) = Continue c'
        \<or> receive_iter (ex_in_progress (drop 2 ex_three_chunks)) = Return c')
     \<and> inChunkStreams c' 5 = Some cs'
     \<and> lastHeader cs' = Some ex_full
     \<and> lastInAbsoluteTimestamp cs' = 10"
  using C3_continuation_timestamp
    [of "ex_in_progress (drop 2 ex_three_chunks)" "ex_hdr HEADER_FORMAT_CONTINUATION 0"
        "drop 3 ex_three_chunks"
        "\<lparr>Id = 5, lastHeader = Some ex_full, lastInAbsoluteTimestamp = 5,
          currentMessage = Some ex_partial\<rparr>"
        ex_full]
  by (simp add: ex_in_progress_def ex_client_def NewClient_def conn0_def ex_hdr_def ex_full_def
      ex_three_chunks_def) blast

text \<open>
  C3 as stated fails: a message of three bytes received in three chunks of one byte, its
  FULL header carrying timestamp 5. The first CONTINUATION chunk resolves the absolute
  timestamp 10, the second 15.
\<close>

theorem C3_counterexample:
  "ended_with_timestamp 5 (receiveLoop (ex_client 1 (take 4 ex_three_chunks))) = Some 10
   \<and> ended_with_timestamp 5 (receiveLoop (ex_client 1 (take 6 ex_three_chunks))) = Some 15"
  by (simp add: ended_with_timestamp_def ex_client_def ex_three_chunks_def ex_full_def ex_hdr_def
      NewClient_def conn0_def receive_iter_def ReadHeader_def resolve_def receive_body_def
      NewInboundChunkStream_def RemainingBytes_def CopyN_in_def CalculateTimestamp_def
      Disconnect_def Close_def Let_def rtmp_consts)

subsection \<open>Transport faults\<close>












subsection \<open>Chunk-size change\<close>

lemma payload_prefix_exact:
  "payload_prefix (length bs) (map WByte bs @ rest) = bs"
  by (induction bs) auto

lemma CopyN_in_exact:
  assumes "alive cn" and "inbound cn = map WByte bs @ rest"
  shows "CopyN_in cn (length bs) = (bs, cn\<lparr>inbound := rest\<rparr>, True)"
proof (cases "bs = []")
  case True
  with assms show ?thesis by (simp add: CopyN_in_def)
next
  case False
  with assms show ?thesis by (simp add: CopyN_in_def payload_prefix_exact Let_def)
qed

lemma if_gt_min: "(if a > b then b else a) = min a (b::'a::linorder)"
  by (auto simp: min_def)

text \<open>A pass whose chunk body arrives whole: the message gets the bytes, and is queued
  when it is complete or kept as the message in progress.\<close>

lemma receive_body_ok:
  assumes m: "(case m0 of
                 None \<Rightarrow>
                   \<lparr>Type = MessageTypeId h, ChunkStreamId = ChunkStreamId_h h,
                    StreamId = MessageStreamId h, Timestamp = CalculateTimestamp h,
                    AbsoluteTimestamp = ts, Length = MessageLength h, Buffer = []\<rparr>
               | Some m1 \<Rightarrow> m1) = m"
    and "alive (conn c)"
    and "inbound (conn c) = map WByte data @ rest"
    and "length data = unat (min (RemainingBytes m) (inChunkSize c))"
  shows "receive_body c h cs ts m0 =
     (if RemainingBytes (m\<lparr>Buffer := Buffer m @ data\<rparr>) = 0 then
        Continue (c\<lparr>conn := (conn c)\<lparr>inbound := rest\<rparr>,
                     inChunkStreams := (inChunkStreams c)(ChunkStreamId_h h \<mapsto>
                        cs\<lparr>lastInAbsoluteTimestamp := ts, currentMessage := None\<rparr>),
                     inMessages := inMessages c @ [m\<lparr>Buffer := Buffer m @ data\<rparr>]\<rparr>)
      else
        Continue (c\<lparr>conn := (conn c)\<lparr>inbound := rest\<rparr>,
                     inChunkStreams := (inChunkStreams c)(ChunkStreamId_h h \<mapsto>
                        cs\<lparr>lastInAbsoluteTimestamp := ts,
                           currentMessage := Some (m\<lparr>Buffer := Buffer m @ data\<rparr>)\<rparr>)\<rparr>))"
proof -
  have cp: "CopyN_in (conn c) (unat (min (RemainingBytes m) (inChunkSize c))) =
      (data, (conn c)\<lparr>inbound := rest\<rparr>, True)"
    using CopyN_in_exact [OF assms(2,3)] assms(4) by simp
  show ?thesis
    unfolding receive_body_def if_gt_min Let_def m cp by simp
qed

text \<open>The value read is the big-endian one: the first byte is the most significant.\<close>

lemma len32: "LENGTH(32) = 32"
  by simp

lemma bit_uint8: "bit (b :: uint8) n \<Longrightarrow> n < 8"
  by (drule bit_imp_le_length) simp

lemma be_or_add:
  fixes b0 b1 b2 b3 :: uint8
  shows "(ucast b3 OR push_bit 8 (ucast b2) OR push_bit 16 (ucast b1) OR push_bit 24 (ucast b0) :: uint32)
     = ucast b3 + (push_bit 8 (ucast b2) + (push_bit 16 (ucast b1) + push_bit 24 (ucast b0)))"
proof -
  have 1: "push_bit 16 (ucast b1) + push_bit 24 (ucast b0) = (push_bit 16 (ucast b1) OR push_bit 24 (ucast b0) :: uint32)"
    by (rule disjunctive_add_eq_or) (auto simp: bit_eq_iff bit_simps dest!: bit_uint8)
  have 2: "push_bit 8 (ucast b2) + (push_bit 16 (ucast b1) OR push_bit 24 (ucast b0)) = (push_bit 8 (ucast b2) OR (push_bit 16 (ucast b1) OR push_bit 24 (ucast b0)) :: uint32)"
    by (rule disjunctive_add_eq_or) (auto simp: bit_eq_iff bit_simps dest!: bit_uint8)
  have 3: "ucast b3 + (push_bit 8 (ucast b2) OR (push_bit 16 (ucast b1) OR push_bit 24 (ucast b0))) = (ucast b3 OR (push_bit 8 (ucast b2) OR (push_bit 16 (ucast b1) OR push_bit 24 (ucast b0))) :: uint32)"
    by (rule disjunctive_add_eq_or) (auto simp: bit_eq_iff bit_simps dest!: bit_uint8)
  show ?thesis
    by (simp add: 1 2 3 or.assoc)
qed

lemma BigEndian_Uint32_value:
  fixes b0 b1 b2 b3 :: uint8
  shows "\<exists>v. BigEndian_Uint32 (b0 # b1 # b2 # b3 # bs) = Some v
     \<and> unat v = unat b0 * 2 ^ 24 + unat b1 * 2 ^ 16 + unat b2 * 2 ^ 8 + unat b3"
proof -
  have lt: "unat b < 256" for b :: uint8
    using unsigned_less [of b, where 'a = nat] by simp
  have u: "unat (ucast b :: uint32) = unat b" for b :: uint8
    using lt [of b] by (simp add: unsigned_ucast_eq take_bit_nat_eq_self)
  have p: "unat (push_bit k (ucast b :: uint32)) = unat b * 2 ^ k" if "k \<le> 24" for b :: uint8 and k
  proof -
    have "unat b * 2 ^ k < 256 * 2 ^ 24"
      using lt [of b] that
      by (meson mult_less_le_imp_less power_increasing one_le_numeral zero_le zero_less_numeral zero_less_power nat_less_le)
    then have small: "unat b * 2 ^ k < 2 ^ 32"
      by simp
    have "unat (push_bit k (ucast b :: uint32)) =
        take_bit 32 (push_bit k (unat (ucast b :: uint32)))"
      by (simp only: unsigned_push_bit_eq len32)
    also have "\<dots> = take_bit 32 (unat b * 2 ^ k)"
      by (simp only: u push_bit_eq_mult)
    also have "\<dots> = unat b * 2 ^ k"
      using small by (simp only: take_bit_nat_eq_self)
    finally show ?thesis .
  qed
  show ?thesis
    apply (simp add: be_or_add)
    apply (simp add: unat_word_ariths p u)
    using lt [of b0] lt [of b1] lt [of b2] lt [of b3]
    apply simp
    done
qed

text \<open>
  C8 (as amended). For a message of type chunk-size whose payload holds at least four bytes,
  the handler reads the first four as a 32-bit big-endian value and installs it as the
  inbound chunk size, changing nothing else of the client: the chunk streams with their
  messages in progress and the bytes already buffered stay as they are. A chunk body read
  after that, for a message in progress too, takes the smaller of the message's remaining
  bytes and the new size.
\<close>

theorem C8_chunk_size_change:
  assumes "Type m = MESSAGE_TYPE_CHUNK_SIZE"
    and "Buffer m = b0 # b1 # b2 # b3 # bs"
  shows "\<exists>C2. BigEndian_Uint32 (Buffer m) = Some C2
     \<and> unat C2 = unat b0 * 2 ^ 24 + unat b1 * 2 ^ 16 + unat b2 * 2 ^ 8 + unat b3
     \<and> handleProtocolMessage c m = Continue (c\<lparr>inChunkSize := C2\<rparr>)
     \<and> (ChunkStreamId m = CHUNK_STREAM_ID_PROTOCOL \<longrightarrow>
          dispatch c m = Continue (c\<lparr>inChunkSize := C2\<rparr>))
     \<and> inChunkStreams (c\<lparr>inChunkSize := C2\<rparr>) = inChunkStreams c
     \<and> (\<forall>h cs ts m1 data rest.
          alive (conn c) \<and> inbound (conn c) = map WByte data @ rest
          \<and> length data = unat (min (RemainingBytes m1) C2) \<longrightarrow>
          (\<exists>c'. receive_body (c\<lparr>inChunkSize := C2\<rparr>) h cs ts (Some m1) = Continue c'
             \<and> inbound (conn c') = rest
             \<and> (inChunkStreams c' (ChunkStreamId_h h) =
                   Some (cs\<lparr>lastInAbsoluteTimestamp := ts,
                            currentMessage := Some (m1\<lparr>Buffer := Buffer m1 @ data\<rparr>)\<rparr>)
                 \<or> inMessages c' = inMessages c @ [m1\<lparr>Buffer := Buffer m1 @ data\<rparr>])))"
proof -
  obtain C2 where be: "BigEndian_Uint32 (Buffer m) = Some C2"
    and val: "unat C2 = unat b0 * 2 ^ 24 + unat b1 * 2 ^ 16 + unat b2 * 2 ^ 8 + unat b3"
    using BigEndian_Uint32_value [of b0 b1 b2 b3 bs] unfolding assms(2) by blast
  have hp: "handleProtocolMessage c m = Continue (c\<lparr>inChunkSize := C2\<rparr>)"
    using assms(1) be by (simp add: handleProtocolMessage_def)
  have dp: "ChunkStreamId m = CHUNK_STREAM_ID_PROTOCOL \<longrightarrow>
          dispatch c m = Continue (c\<lparr>inChunkSize := C2\<rparr>)"
    using hp by (simp add: dispatch_def)
  have body: "\<exists>c'. receive_body (c\<lparr>inChunkSize := C2\<rparr>) h cs ts (Some m1) = Continue c'
             \<and> inbound (conn c') = rest
             \<and> (inChunkStreams c' (ChunkStreamId_h h) =
                   Some (cs\<lparr>lastInAbsoluteTimestamp := ts,
                            currentMessage := Some (m1\<lparr>Buffer := Buffer m1 @ data\<rparr>)\<rparr>)
                 \<or> inMessages c' = inMessages c @ [m1\<lparr>Buffer := Buffer m1 @ data\<rparr>])"
    if a: "alive (conn c)" "inbound (conn c) = map WByte data @ rest"
      "length data = unat (min (RemainingBytes m1) C2)"
    for h cs ts m1 data rest
    using receive_body_ok [where ?m0.0 = "Some m1" and h = h and ts = ts and m = m1
        and c = "c\<lparr>inChunkSize := C2\<rparr>" and data = data and rest = rest and cs = cs] a
    by (cases "RemainingBytes (m1\<lparr>Buffer := Buffer m1 @ data\<rparr>) = 0") simp_all
  have same: "inChunkStreams (c\<lparr>inChunkSize := C2\<rparr>) = inChunkStreams c"
    by simp
  from body have "\<forall>h cs ts m1 data rest.
          alive (conn c) \<and> inbound (conn c) = map WByte data @ rest
          \<and> length data = unat (min (RemainingBytes m1) C2) \<longrightarrow>
          (\<exists>c'. receive_body (c\<lparr>inChunkSize := C2\<rparr>) h cs ts (Some m1) = Continue c'
             \<and> inbound (conn c') = rest
             \<and> (inChunkStreams c' (ChunkStreamId_h h) =
                   Some (cs\<lparr>lastInAbsoluteTimestamp := ts,
                            currentMessage := Some (m1\<lparr>Buffer := Buffer m1 @ data\<rparr>)\<rparr>)
                 \<or> inMessages c' = inMessages c @ [m1\<lparr>Buffer := Buffer m1 @ data\<rparr>]))"
    by blast
  with be val hp dp same show ?thesis
    by blast
qed

theorem C8_chunk_size_change_witness:
  "handleProtocolMessage (ex_in_progress [WByte 2, WByte 3])
       (msg_on 2 MESSAGE_TYPE_CHUNK_SIZE [0, 0, 16, 0]) =
     Continue ((ex_in_progress [WByte 2, WByte 3])\<lparr>inChunkSize := 4096\<rparr>)
   \<and> (\<exists>c'. receive_body ((ex_in_progress [WByte 2, WByte 3])\<lparr>inChunkSize := 4096\<rparr>) ex_full
             (NewInboundChunkStream 5) 10 (Some ex_partial) = Continue c'
          \<and> inbound (conn c') = []
          \<and> (inChunkStreams c' 5 =
                Some ((NewInboundChunkStream 5)\<lparr>lastInAbsoluteTimestamp := 10,
                   currentMessage := Some (ex_partial\<lparr>Buffer := [1, 2, 3]\<rparr>)\<rparr>)
              \<or> inMessages c' = [ex_partial\<lparr>Buffer := [1, 2, 3]\<rparr>]))"
proof -
  let ?c = "ex_in_progress [WByte 2, WByte 3]"
  let ?m = "msg_on 2 MESSAGE_TYPE_CHUNK_SIZE [0, 0, 16, 0]"
  have t: "Type ?m = MESSAGE_TYPE_CHUNK_SIZE" and b: "Buffer ?m = 0 # 0 # 16 # 0 # []"
    by (simp_all add: msg_on_def)
  from C8_chunk_size_change [OF t b, of ?c] obtain C2 where
    be: "BigEndian_Uint32 (Buffer ?m) = Some C2"
    and hp: "handleProtocolMessage ?c ?m = Continue (?c\<lparr>inChunkSize := C2\<rparr>)"
    and rd: "\<forall>h cs ts m1 data rest.
          alive (conn ?c) \<and> inbound (conn ?c) = map WByte data @ rest
          \<and> length data = unat (min (RemainingBytes m1) C2) \<longrightarrow>
          (\<exists>c'. receive_body (?c\<lparr>inChunkSize := C2\<rparr>) h cs ts (Some m1) = Continue c'
             \<and> inbound (conn c') = rest
             \<and> (inChunkStreams c' (ChunkStreamId_h h) =
                   Some (cs\<lparr>lastInAbsoluteTimestamp := ts,
                            currentMessage := Some (m1\<lparr>Buffer := Buffer m1 @ data\<rparr>)\<rparr>)
                 \<or> inMessages c' = inMessages ?c @ [m1\<lparr>Buffer := Buffer m1 @ data\<rparr>]))"
    by blast
  have C2: "C2 = 4096"
    using be by (simp add: msg_on_def)
  have pre: "alive (conn ?c) \<and> inbound (conn ?c) = map WByte [2, 3] @ []
      \<and> length [2, 3 :: uint8] = unat (min (RemainingBytes ex_partial) C2)"
    by (simp add: C2 ex_in_progress_def ex_client_def NewClient_def conn0_def ex_partial_def
        RemainingBytes_def)
  from rd [rule_format, OF pre, of ex_full "NewInboundChunkStream 5" 10]
  have "\<exists>c'. receive_body (?c\<lparr>inChunkSize := 4096\<rparr>) ex_full
             (NewInboundChunkStream 5) 10 (Some ex_partial) = Continue c'
          \<and> inbound (conn c') = []
          \<and> (inChunkStreams c' 5 =
                Some ((NewInboundChunkStream 5)\<lparr>lastInAbsoluteTimestamp := 10,
                   currentMessage := Some (ex_partial\<lparr>Buffer := [1, 2, 3]\<rparr>)\<rparr>)
              \<or> inMessages c' = [ex_partial\<lparr>Buffer := [1, 2, 3]\<rparr>])"
    by (simp add: C2 ex_full_def ex_partial_def ex_in_progress_def ex_client_def NewClient_def)
  with hp C2 show ?thesis by simp
qed

text \<open>
  C8 as stated fails: a message of type chunk-size with a payload of three bytes. The
  handler panics in \<^verbatim>\<open>binary.BigEndian.Uint32\<close> and installs nothing.
\<close>

theorem C8_counterexample:
  "handleProtocolMessage (NewClient conn0) (msg_on 2 MESSAGE_TYPE_CHUNK_SIZE [0, 16, 0]) = Panic
   \<and> dispatch (NewClient conn0) (msg_on 2 MESSAGE_TYPE_CHUNK_SIZE [0, 16, 0]) = Panic"
  by (simp add: dispatch_def handleProtocolMessage_def msg_on_def rtmp_consts)

subsection \<open>Framing by the send path\<close>

declare frame.simps [simp del]

lemma unat_min: "unat (min a b) = min (unat a) (unat (b :: 'a::len word))"
  by (simp add: min_def word_le_nat_alt)

lemma send_chunks_frame:
  assumes "alive (conn c)" and "0 < outChunkSize c" and "length buf = unat rem"
  shows "send_chunks c h buf rem =
     Some (Continue (c\<lparr>conn := (conn c)\<lparr>outbound :=
        outbound (conn c) @ frame (unat (outChunkSize c)) h buf\<rparr>\<rparr>))"
  using assms
proof (induction "length buf" arbitrary: c h buf rem rule: less_induct)
  case less
  let ?C = "outChunkSize c"
  show ?case
  proof (cases "rem = 0")
    case True
    with less.prems have "buf = []" by simp
    then show ?thesis
      using True by (simp add: send_chunks.simps [of c] frame.simps [of _ _ "[]"])
  next
    case False
    then have pos: "0 < rem" by (simp add: word_greater_zero_iff)
    let ?ws = "min rem ?C"
    let ?n = "unat ?ws"
    have n: "?n = min (length buf) (unat ?C)"
      using less.prems(3) by (simp add: unat_min)
    have Cpos: "0 < unat ?C"
      using less.prems(2) by (simp add: word_less_nat_alt)
    have npos: "0 < ?n" and nle: "?n \<le> length buf"
      using n Cpos pos less.prems(3) by (simp_all add: word_less_nat_alt)
    have ne: "buf \<noteq> []" using npos nle by auto
    have tk: "take ?n buf = take (unat ?C) buf" and dr: "drop ?n buf = drop (unat ?C) buf"
      unfolding n by (simp_all add: min_def)
    let ?cn = "(conn c)\<lparr>outbound := outbound (conn c) @ [WHeader (on_wire h)]\<rparr>"
    have hw: "Header_Write h (conn c) = Some ?cn"
      using less.prems(1) by (simp add: Header_Write_def)
    let ?cn' = "?cn\<lparr>outbound := outbound ?cn @ map WByte (take ?n buf)\<rparr>"
    have cp: "CopyN_out ?cn buf ?n = (?n, drop ?n buf, ?cn', True)"
      using npos nle ne less.prems(1) by (simp add: CopyN_out_def)
    let ?c' = "c\<lparr>conn := ?cn'\<rparr>"
    have rem': "length (drop ?n buf) = unat (rem - word_of_nat ?n)"
    proof -
      have "?ws \<le> rem" by simp
      then have "unat (rem - ?ws) = unat rem - unat ?ws" by (rule unat_sub)
      then show ?thesis using less.prems(3) by simp
    qed
    have IH: "send_chunks ?c' (h\<lparr>Format := HEADER_FORMAT_CONTINUATION\<rparr>) (drop ?n buf)
          (rem - word_of_nat ?n) =
        Some (Continue (?c'\<lparr>conn := (conn ?c')\<lparr>outbound :=
           outbound (conn ?c') @ frame (unat (outChunkSize ?c'))
             (h\<lparr>Format := HEADER_FORMAT_CONTINUATION\<rparr>) (drop ?n buf)\<rparr>\<rparr>))"
    proof (rule less.hyps)
      show "length (drop ?n buf) < length buf"
        using npos ne by simp
      show "alive (conn ?c')" using less.prems(1) by simp
      show "0 < outChunkSize ?c'" using less.prems(2) by simp
      show "length (drop ?n buf) = unat (rem - word_of_nat ?n)" by (rule rem')
    qed
    have step: "send_chunks c h buf rem =
        send_chunks ?c' (h\<lparr>Format := HEADER_FORMAT_CONTINUATION\<rparr>) (drop ?n buf)
          (rem - word_of_nat ?n)"
      unfolding send_chunks.simps [of c h buf rem] if_gt_min hw Let_def
      using pos cp by (simp add: min.commute)
    have fr: "frame (unat ?C) h buf =
        WHeader (on_wire h) # map WByte (take (unat ?C) buf)
          @ frame (unat ?C) (h\<lparr>Format := HEADER_FORMAT_CONTINUATION\<rparr>) (drop (unat ?C) buf)"
      using Cpos ne by (simp add: frame.simps [of _ h buf])
    show ?thesis
      unfolding step IH by (simp add: fr tk dr)
  qed
qed


lemma send_message_frame:
  assumes "alive (conn c)" and "0 < outChunkSize c" and "length (Buffer m) = unat (Length m)"
  shows "send_message c m =
     Some (Continue (c\<lparr>conn := (conn c)\<lparr>outbound := outbound (conn c) @
        frame (unat (outChunkSize c))
          (NewOutboundHeader
             (case outChunkStreams c (ChunkStreamId m) of
                None \<Rightarrow> NewOutboundChunkStream (ChunkStreamId m)
              | Some cs \<Rightarrow> cs) m)
          (Buffer m)\<rparr>\<rparr>))"
  unfolding send_message_def Let_def by (rule send_chunks_frame [OF assms])

subsection \<open>Chunk boundaries\<close>

lemma split_chunks_bytes:
  "split_chunks (map WByte bs @ w) = (length bs + fst (split_chunks w), snd (split_chunks w))"
  by (induction bs) simp_all

lemma split_chunks_only_bytes: "split_chunks (map WByte bs) = (length bs, [])"
  using split_chunks_bytes [of bs "[]"] by simp

lemma split_chunks_frame:
  assumes "0 < C"
  shows "split_chunks (frame C h buf) =
     (0, replicate (length buf div C) C
         @ (if length buf mod C = 0 then [] else [length buf mod C]))"
  using assms
proof (induction C h buf rule: frame.induct)
  case (1 C h buf)
  show ?case
  proof (cases "buf = []")
    case True
    then show ?thesis by (simp add: frame.simps [of _ _ "[]"])
  next
    case False
    let ?h = "h\<lparr>Format := HEADER_FORMAT_CONTINUATION\<rparr>"
    have fr: "frame C h buf =
        WHeader (on_wire h) # map WByte (take C buf) @ frame C ?h (drop C buf)"
      using "1.prems" False by (simp add: frame.simps [of _ h buf])
    have IH: "split_chunks (frame C ?h (drop C buf)) =
       (0, replicate (length (drop C buf) div C) C
           @ (if length (drop C buf) mod C = 0 then [] else [length (drop C buf) mod C]))"
      using "1.prems" False by (intro "1.IH") simp_all
    show ?thesis
    proof (cases "C \<le> length buf")
      case True
      then have d: "length buf div C = Suc ((length buf - C) div C)"
        and m: "length buf mod C = (length buf - C) mod C"
        using "1.prems" by (simp_all add: le_div_geq le_mod_geq)
      show ?thesis
        unfolding fr using True by (simp add: split_chunks_bytes IH d m)
    next
      case False
      then have "length buf div C = 0" "length buf mod C = length buf" by simp_all
      moreover have "frame C ?h (drop C buf) = []"
        using False by (simp add: frame.simps [of _ ?h])
      ultimately show ?thesis
        unfolding fr using False \<open>buf \<noteq> []\<close> by (simp add: split_chunks_only_bytes)
    qed
  qed
qed

lemma chunk_sizes_frame_multiple:
  assumes "0 < C" and "length buf = k * C"
  shows "chunk_sizes (frame C h buf) = replicate k C"
  using assms by (simp add: chunk_sizes_def split_chunks_frame)

lemma chunk_sizes_frame_multiple_plus_one:
  assumes "0 < C" and "length buf = k * C + 1"
  shows "chunk_sizes (frame C h buf) = replicate k C @ [1]"
proof (cases "C = 1")
  case True
  then show ?thesis
    using assms by (simp add: chunk_sizes_def split_chunks_frame replicate_append_same)
next
  case False
  with assms have "1 < C" by simp
  then have "(k * C + 1) div C = k" "(k * C + 1) mod C = 1"
    using div_mult_self3 [of C k 1] mod_mult_self3 [of k C 1] by simp_all
  then show ?thesis
    using assms by (simp add: chunk_sizes_def split_chunks_frame)
qed

text \<open>
  C5. With the connection up, an outbound chunk size \<open>C > 0\<close> and a message whose buffer
  holds its declared length: when the length is \<open>k * C\<close> the send path writes exactly
  \<open>k\<close> chunks of \<open>C\<close> payload bytes each, and no chunk after them; when it is
  \<open>k * C + 1\<close> it writes \<open>k\<close> chunks of \<open>C\<close> bytes and then one chunk of one byte.
\<close>

theorem C5_chunking_boundary:
  assumes "alive (conn c)"
    and "0 < outChunkSize c"
    and "length (Buffer m) = unat (Length m)"
  shows "\<exists>c' w. send_message c m = Some (Continue c')
     \<and> outbound (conn c') = outbound (conn c) @ w
     \<and> (unat (Length m) = k * unat (outChunkSize c) \<longrightarrow>
          chunk_sizes w = replicate k (unat (outChunkSize c)))
     \<and> (unat (Length m) = k * unat (outChunkSize c) + 1 \<longrightarrow>
          chunk_sizes w = replicate k (unat (outChunkSize c)) @ [1])"
proof -
  let ?C = "unat (outChunkSize c)"
  let ?h = "NewOutboundHeader
             (case outChunkStreams c (ChunkStreamId m) of
                None \<Rightarrow> NewOutboundChunkStream (ChunkStreamId m)
              | Some cs \<Rightarrow> cs) m"
  let ?w = "frame ?C ?h (Buffer m)"
  let ?c' = "c\<lparr>conn := (conn c)\<lparr>outbound := outbound (conn c) @ ?w\<rparr>\<rparr>"
  have C: "0 < ?C"
    using assms(2) by (simp add: word_less_nat_alt)
  have "send_message c m = Some (Continue ?c')"
    by (rule send_message_frame [OF assms])
  moreover have "outbound (conn ?c') = outbound (conn c) @ ?w"
    by simp
  moreover have "unat (Length m) = k * ?C \<longrightarrow> chunk_sizes ?w = replicate k ?C"
    using chunk_sizes_frame_multiple [OF C, of "Buffer m" k ?h] assms(3) by simp
  moreover have "unat (Length m) = k * ?C + 1 \<longrightarrow> chunk_sizes ?w = replicate k ?C @ [1]"
    using chunk_sizes_frame_multiple_plus_one [OF C, of "Buffer m" k ?h] assms(3) by simp
  ultimately show ?thesis by blast
qed

theorem C5_chunking_boundary_witness:
  "(\<exists>c' w. send_message (ex_sender 2) (msg_on 3 MESSAGE_TYPE_AMF0 [1, 2, 3, 4]) = Some (Continue c')
      \<and> outbound (conn c') = w \<and> chunk_sizes w = [2, 2])
   \<and> (\<exists>c' w. send_message (ex_sender 2) (msg_on 3 MESSAGE_TYPE_AMF0 [1, 2, 3, 4, 5]) = Some (Continue c')
      \<and> outbound (conn c') = w \<and> chunk_sizes w = [2, 2, 1])"
proof -
  let ?c = "ex_sender 2"
  let ?m4 = "msg_on 3 MESSAGE_TYPE_AMF0 [1, 2, 3, 4]"
  let ?m5 = "msg_on 3 MESSAGE_TYPE_AMF0 [1, 2, 3, 4, 5]"
  have c: "alive (conn ?c)" "0 < outChunkSize ?c" "outbound (conn ?c) = []"
    "unat (outChunkSize ?c) = 2"
    by (simp_all add: ex_sender_def NewClient_def conn0_def)
  have l4: "length (Buffer ?m4) = unat (Length ?m4)"
    and k4: "unat (Length ?m4) = 2 * unat (outChunkSize ?c)"
    by (simp_all add: msg_on_def c(4))
  have l5: "length (Buffer ?m5) = unat (Length ?m5)"
    and k5: "unat (Length ?m5) = 2 * unat (outChunkSize ?c) + 1"
    by (simp_all add: msg_on_def c(4))
  have r: "replicate 2 (2::nat) = [2, 2]"
    by (simp add: numeral_2_eq_2)
  from C5_chunking_boundary [OF c(1,2) l4, of 2] k4
  have "\<exists>c' w. send_message ?c ?m4 = Some (Continue c')
      \<and> outbound (conn c') = w \<and> chunk_sizes w = [2, 2]"
    unfolding c(3,4) r by auto
  moreover from C5_chunking_boundary [OF c(1,2) l5, of 2] k5
  have "\<exists>c' w. send_message ?c ?m5 = Some (Continue c')
      \<and> outbound (conn c') = w \<and> chunk_sizes w = [2, 2, 1]"
    unfolding c(3,4) r by auto
  ultimately show ?thesis by blast
qed

subsection \<open>Reassembly of a chunk sequence\<close>




























end
